theory Spec2Isabelle
  imports Main "HOL-Library.Word" "HOL-Library.Sublist"
begin

section \<open>Go base types\<close>

text \<open>
  \<open>time.Duration\<close> is an \<open>int64\<close> counting nanoseconds. Go's \<open>int\<close> is taken at its
  64-bit width; \<open>int32\<close> is a 32-bit word. Comparisons with zero in the source are signed,
  so they are written with \<open>sint\<close>.
\<close>

type_synonym duration = "64 word"
type_synonym go_int = "64 word"
type_synonym int32 = "32 word"

text \<open>The value of an \<open>error\<close> interface is represented by its message.\<close>

type_synonym go_error = string

definition Nanosecond :: duration where
  "Nanosecond = 1"

definition Second :: duration where
  "Second = 1000000000 * Nanosecond"

definition Minute :: duration where
  "Minute = 60 * Second"

section \<open>CliConfig\<close>

record CliConfig =
  TlsCertFile :: string
  TlsKeyFile :: string
  DefaultReadTimeout :: duration
  DefaultWriteTimeout :: duration
  DefaultDialTimeout :: duration
  RedialTimes :: int32
  SlowCometDuration :: duration
  DefaultBodyCodec :: string
  PrintBody :: bool
  CountTime :: bool
  Network :: string
  Heartbeat :: duration
  SessMaxQuota :: go_int
  SessMaxIdleDuration :: duration

text \<open>
  \<open>func (c *CliConfig) check() error\<close> writes through its pointer receiver and returns an
  error; the model returns the configuration after the call together with the error
  (\<open>None\<close> is \<open>nil\<close>).
\<close>

definition check :: "CliConfig \<Rightarrow> CliConfig \<times> go_error option" where
  "check c =
     (let c1 = (if sint (SessMaxQuota c) \<le> 0 then c\<lparr>SessMaxQuota := 100\<rparr> else c);
          c2 = (if sint (SessMaxIdleDuration c1) \<le> 0
                then c1\<lparr>SessMaxIdleDuration := Minute * 3\<rparr> else c1)
      in (c2, None))"

text \<open>
  \<open>Reload\<close>: \<open>bind\<close> synchronises the configuration with a file, so it is a parameter
  mapping the configuration to the bound one and an error.
\<close>

definition Reload :: "CliConfig \<Rightarrow> (CliConfig \<Rightarrow> CliConfig \<times> go_error option)
    \<Rightarrow> CliConfig \<times> go_error option" where
  "Reload c bind =
     (case bind c of
        (c', Some err) \<Rightarrow> (c', Some err)
      | (c', None) \<Rightarrow> check c')"

text \<open>The fields of \<open>tp.PeerConfig\<close> that \<open>peerConfig\<close> fills.\<close>

record PeerConfig =
  pcfg_DefaultReadTimeout :: duration
  pcfg_DefaultWriteTimeout :: duration
  pcfg_DefaultDialTimeout :: duration
  pcfg_RedialTimes :: int32
  pcfg_SlowCometDuration :: duration
  pcfg_DefaultBodyCodec :: string
  pcfg_PrintBody :: bool
  pcfg_CountTime :: bool
  pcfg_Network :: string

definition peerConfig :: "CliConfig \<Rightarrow> PeerConfig" where
  "peerConfig c =
     \<lparr> pcfg_DefaultReadTimeout = DefaultReadTimeout c,
       pcfg_DefaultWriteTimeout = DefaultWriteTimeout c,
       pcfg_DefaultDialTimeout = DefaultDialTimeout c,
       pcfg_RedialTimes = RedialTimes c,
       pcfg_SlowCometDuration = SlowCometDuration c,
       pcfg_DefaultBodyCodec = DefaultBodyCodec c,
       pcfg_PrintBody = PrintBody c,
       pcfg_CountTime = CountTime c,
       pcfg_Network = Network c \<rparr>"

section \<open>Collaborators outside the package\<close>

text \<open>
  The transport endpoint, the session, the error value and the pull command belong to
  other packages. Each is represented by the data its constructor receives; nothing is
  assumed about what those packages do with it.
\<close>

datatype plugin = HeartbeatPing duration | OtherPlugin nat

definition NewPing :: "duration \<Rightarrow> plugin" where
  "NewPing d = HeartbeatPing d"

record peer =
  peer_cfg :: PeerConfig
  peer_plugins :: "plugin list"
  peer_tls :: "(string \<times> string) option"

definition NewPeer :: "PeerConfig \<Rightarrow> plugin list \<Rightarrow> peer" where
  "NewPeer cfg plugin = \<lparr> peer_cfg = cfg, peer_plugins = plugin, peer_tls = None \<rparr>"

text \<open>
  \<open>SetTlsConfigFromFile\<close> reads two files; whether that succeeds is a property of the file
  system, given as the parameter \<open>loadTls\<close>.
\<close>

definition SetTlsConfigFromFile :: "(string \<Rightarrow> string \<Rightarrow> go_error option) \<Rightarrow> peer
    \<Rightarrow> string \<Rightarrow> string \<Rightarrow> peer \<times> go_error option" where
  "SetTlsConfigFromFile loadTls p certFile keyFile =
     (case loadTls certFile keyFile of
        Some err \<Rightarrow> (p, Some err)
      | None \<Rightarrow> (p\<lparr>peer_tls := Some (certFile, keyFile)\<rparr>, None))"

datatype protoFunc = DefaultProtoFunc | OtherProtoFunc nat

text \<open>\<open>tp.Rerror\<close>: code, message, detail. A \<open>*tp.Rerror\<close> is a \<open>rerror option\<close>.\<close>

datatype rerror = Rerror (rerr_code: int32) (rerr_message: string) (rerr_detail: string)

text \<open>An \<open>interface{}\<close> argument or reply, which this package only passes on.\<close>

datatype iface = INil | IVal string

type_synonym packetSetting = nat

type_synonym address = string

text \<open>
  A \<open>*cliSession.CliSession\<close>: \<open>sess_id\<close> is the identity of the object (the number of
  sessions allocated before it), the other fields are the arguments of \<open>cliSession.New\<close>.
\<close>

record cliSession =
  sess_id :: nat
  sess_peer :: peer
  sess_addr :: address
  sess_quota :: go_int
  sess_idle :: duration

text \<open>
  A \<open>tp.PullCmd\<close> is either the one built by \<open>cliSession.NewFakePullCmd\<close> or the one a
  session's \<open>Pull\<close> returns; both are kept as the call that produced them.
\<close>

datatype pullCmd =
    FakePullCmd peer string iface iface rerror "packetSetting list"
  | SessPullCmd cliSession string iface iface "packetSetting list"

text \<open>The \<open>*tp.Rerror\<close> that \<open>Push\<close> returns: a given one, or what the session's \<open>Push\<close> returns.\<close>

datatype pushRet =
    PushRerror "rerror option"
  | SessPushRet cliSession string iface "packetSetting list"

section \<open>Linker\<close>

record staticLinker =
  srvAddr :: string

text \<open>
  The \<open>Linker\<close> interface has one implementation in the package, \<open>staticLinker\<close>; any other
  implementation is a function from the path to the pair that \<open>Select\<close> returns.
\<close>

datatype Linker =
    StaticLinker staticLinker
  | OtherLinker "string \<Rightarrow> string \<times> rerror option"

definition NewStaticLinker :: "string \<Rightarrow> Linker" where
  "NewStaticLinker a = StaticLinker \<lparr> srvAddr = a \<rparr>"

definition staticLinker_Select :: "staticLinker \<Rightarrow> string \<Rightarrow> string \<times> rerror option" where
  "staticLinker_Select d uriPath = (srvAddr d, None)"

fun Select :: "Linker \<Rightarrow> string \<Rightarrow> string \<times> rerror option" where
  "Select (StaticLinker d) uriPath = staticLinker_Select d uriPath"
| "Select (OtherLinker f) uriPath = f uriPath"

section \<open>Client\<close>

text \<open>
  \<open>linker\<close> is an interface value that \<open>NewClient\<close> leaves unset, so it may be \<open>nil\<close>
  (\<open>None\<close>). \<open>cliSessPool\<close> is the atomic map from address to session.
\<close>

record Client =
  peer :: peer
  linker :: "Linker option"
  protoFunc :: protoFunc
  cliSessPool :: "address \<rightharpoonup> cliSession"
  sessMaxQuota :: go_int
  sessMaxIdleDuration :: duration

text \<open>
  \<open>tp.Fatalf\<close> ends the process. The two places that call it are told apart: line 95
  (configuration check) and line 104 (TLS files).
\<close>

datatype fatal = FatalCheck go_error | FatalTls go_error

definition NewClient :: "(string \<Rightarrow> string \<Rightarrow> go_error option) \<Rightarrow> CliConfig \<Rightarrow> plugin list
    \<Rightarrow> fatal + Client" where
  "NewClient loadTls cfg0 plugin0 =
     (case check cfg0 of
        (cfg, Some err) \<Rightarrow> Inl (FatalCheck err)
      | (cfg, None) \<Rightarrow>
          (let plugin = (if 0 < sint (Heartbeat cfg)
                         then plugin0 @ [NewPing (Heartbeat cfg)] else plugin0);
               peer0 = NewPeer (peerConfig cfg) plugin;
               mk = (\<lambda>p. \<lparr> peer = p,
                            linker = None,
                            protoFunc = DefaultProtoFunc,
                            cliSessPool = Map.empty,
                            sessMaxQuota = SessMaxQuota cfg,
                            sessMaxIdleDuration = SessMaxIdleDuration cfg \<rparr>)
           in if length (TlsCertFile cfg) > 0 \<and> length (TlsKeyFile cfg) > 0
              then (case SetTlsConfigFromFile loadTls peer0 (TlsCertFile cfg) (TlsKeyFile cfg) of
                      (peer1, Some err) \<Rightarrow> Inl (FatalTls err)
                    | (peer1, None) \<Rightarrow> Inr (mk peer1))
              else Inr (mk peer0)))"

definition SetProtoFunc :: "Client \<Rightarrow> protoFunc \<Rightarrow> Client" where
  "SetProtoFunc c pf = c\<lparr>protoFunc := pf\<rparr>"

definition SetLinker :: "Client \<Rightarrow> Linker \<Rightarrow> Client" where
  "SetLinker c l = c\<lparr>linker := Some l\<rparr>"

section \<open>State and calls that leave the package\<close>

text \<open>
  Every call that \<open>getCliSession\<close>, \<open>Pull\<close>, \<open>Push\<close> and \<open>AsyncPull\<close> make on a
  collaborator is recorded, oldest first, with its arguments.
\<close>

datatype call =
    CallSelect string
  | CallLoad address
  | CallNew peer address go_int duration
  | CallStore address cliSession
  | CallNewFakePullCmd peer string iface iface rerror "packetSetting list"
  | CallSessPull cliSession string iface iface "packetSetting list"
  | CallSessAsyncPull cliSession string iface iface "packetSetting list"
  | CallSessPush cliSession string iface "packetSetting list"

text \<open>
  The state a method of \<open>*Client\<close> runs in: the client it points to, the number of
  \<open>CliSession\<close> objects allocated so far, and the calls made so far.
\<close>

record state =
  client :: Client
  nsess :: nat
  calls :: "call list"

text \<open>How a call ends: it returns, it panics, or it never gets past a channel send.\<close>

datatype 'a outcome = Returns 'a | Panics | Blocks

definition logCall :: "call \<Rightarrow> state \<Rightarrow> state" where
  "logCall e s = s\<lparr>calls := calls s @ [e]\<rparr>"

subsection \<open>strings.Index and the slice \<open>uri[:idx]\<close>\<close>

text \<open>The byte index of the first occurrence of \<open>substr\<close> in \<open>s\<close>, or \<open>-1\<close>.\<close>

fun strings_Index :: "string \<Rightarrow> string \<Rightarrow> int" where
  "strings_Index [] substr = (if substr = [] then 0 else -1)"
| "strings_Index (x # t) substr =
     (if prefix substr (x # t) then 0
      else (let r = strings_Index t substr in if r = -1 then -1 else r + 1))"

text \<open>Lines 162 to 164: the uri that is handed to \<open>Select\<close>.\<close>

definition stripQuery :: "string \<Rightarrow> string" where
  "stripQuery uri =
     (let idx = strings_Index uri ''?'' in if idx \<noteq> -1 then take (nat idx) uri else uri)"

subsection \<open>The four calls of getCliSession\<close>

text \<open>Line 165: \<open>c.linker.Select(uri)\<close>; a method call on a nil interface panics.\<close>

definition callSelect :: "state \<Rightarrow> string \<Rightarrow> (address \<times> rerror option) outcome \<times> state" where
  "callSelect s uri =
     (case linker (client s) of
        None \<Rightarrow> (Panics, s)
      | Some l \<Rightarrow> (Returns (Select l uri), logCall (CallSelect uri) s))"

text \<open>Line 169: \<open>c.cliSessPool.Load(addr)\<close>.\<close>

definition poolLoad :: "state \<Rightarrow> address \<Rightarrow> cliSession option \<times> state" where
  "poolLoad s addr = (cliSessPool (client s) addr, logCall (CallLoad addr) s)"

text \<open>Lines 173 to 178: \<open>cliSession.New(c.peer, addr, c.sessMaxQuota, c.sessMaxIdleDuration)\<close>.\<close>

definition New :: "nat \<Rightarrow> peer \<Rightarrow> address \<Rightarrow> go_int \<Rightarrow> duration \<Rightarrow> cliSession" where
  "New i p addr quota idle =
     \<lparr> sess_id = i, sess_peer = p, sess_addr = addr, sess_quota = quota, sess_idle = idle \<rparr>"

definition callNew :: "state \<Rightarrow> address \<Rightarrow> cliSession \<times> state" where
  "callNew s addr =
     (let c = client s in
      (New (nsess s) (peer c) addr (sessMaxQuota c) (sessMaxIdleDuration c),
       logCall (CallNew (peer c) addr (sessMaxQuota c) (sessMaxIdleDuration c))
         (s\<lparr>nsess := Suc (nsess s)\<rparr>)))"

text \<open>Line 179: \<open>c.cliSessPool.Store(addr, cliSess)\<close>.\<close>

definition poolStore :: "state \<Rightarrow> address \<Rightarrow> cliSession \<Rightarrow> state" where
  "poolStore s addr cliSess =
     logCall (CallStore addr cliSess)
       (s\<lparr>client := (client s)\<lparr>cliSessPool := (cliSessPool (client s))(addr \<mapsto> cliSess)\<rparr>\<rparr>)"

subsection \<open>getCliSession\<close>

text \<open>
  The result is Go's pair \<open>(*cliSession.CliSession, *tp.Rerror)\<close>, each component
  \<open>None\<close> when \<open>nil\<close>.
\<close>

definition getCliSession :: "state \<Rightarrow> string
    \<Rightarrow> (cliSession option \<times> rerror option) outcome \<times> state" where
  "getCliSession s uri0 =
     (let uri = stripQuery uri0 in
      case callSelect s uri of
        (Panics, s1) \<Rightarrow> (Panics, s1)
      | (Blocks, s1) \<Rightarrow> (Blocks, s1)
      | (Returns (addr, rerr), s1) \<Rightarrow>
          if rerr \<noteq> None then (Returns (None, rerr), s1)
          else (case poolLoad s1 addr of
                  (Some cs, s2) \<Rightarrow> (Returns (Some cs, None), s2)
                | (None, s2) \<Rightarrow>
                    (let (cliSess, s3) = callNew s2 addr;
                         s4 = poolStore s3 addr cliSess
                     in (Returns (Some cliSess, None), s4))))"

subsection \<open>Channels\<close>

text \<open>
  A \<open>chan tp.PullCmd\<close> as the send statement sees it: capacity, buffered values, whether it
  is closed, how many goroutines are parked in a receive on it, and the values handed
  straight to such receivers. A nil channel is \<open>None\<close>.
\<close>

record chan =
  chan_cap :: nat
  chan_buf :: "pullCmd list"
  chan_closed :: bool
  chan_recvq :: nat
  chan_taken :: "pullCmd list"

text \<open>
  The send statement \<open>done <- v\<close>: on a nil channel it blocks forever; on a closed one
  it panics; with a parked receiver the value is handed over; with room in the buffer it
  is queued; otherwise the sender blocks.
\<close>

definition chansend :: "chan option \<Rightarrow> pullCmd \<Rightarrow> unit outcome \<times> chan option" where
  "chansend done v =
     (case done of
        None \<Rightarrow> (Blocks, None)
      | Some ch \<Rightarrow>
          if chan_closed ch then (Panics, Some ch)
          else if chan_recvq ch > 0
          then (Returns (), Some (ch\<lparr>chan_recvq := chan_recvq ch - 1,
                                     chan_taken := chan_taken ch @ [v]\<rparr>))
          else if length (chan_buf ch) < chan_cap ch
          then (Returns (), Some (ch\<lparr>chan_buf := chan_buf ch @ [v]\<rparr>))
          else (Blocks, Some ch))"

text \<open>The values the channel has accepted: those handed to receivers, then those buffered.\<close>

definition delivered :: "chan option \<Rightarrow> pullCmd list" where
  "delivered done = (case done of None \<Rightarrow> [] | Some ch \<Rightarrow> chan_taken ch @ chan_buf ch)"

subsection \<open>AsyncPull, Pull, Push\<close>

definition NewFakePullCmd :: "state \<Rightarrow> string \<Rightarrow> iface \<Rightarrow> iface \<Rightarrow> rerror
    \<Rightarrow> packetSetting list \<Rightarrow> pullCmd \<times> state" where
  "NewFakePullCmd s uri args reply rerr setting =
     (let p = peer (client s) in
      (FakePullCmd p uri args reply rerr setting,
       logCall (CallNewFakePullCmd p uri args reply rerr setting) s))"

text \<open>
  On the success path the session's \<open>AsyncPull\<close> receives \<open>done\<close>; what it does with the
  channel later is outside this package, so the channel is returned as it is.
\<close>

text \<open>
  In the three methods the case of a nil session with a nil error does not arise from
  \<open>getCliSession\<close>; a method call through the nil session pointer would fault there.
\<close>

definition AsyncPull :: "state \<Rightarrow> string \<Rightarrow> iface \<Rightarrow> iface \<Rightarrow> chan option
    \<Rightarrow> packetSetting list \<Rightarrow> unit outcome \<times> chan option \<times> state" where
  "AsyncPull s uri args reply done setting =
     (case getCliSession s uri of
        (Panics, s1) \<Rightarrow> (Panics, done, s1)
      | (Blocks, s1) \<Rightarrow> (Blocks, done, s1)
      | (Returns (cliSess, Some rerr), s1) \<Rightarrow>
          (let (cmd, s2) = NewFakePullCmd s1 uri args reply rerr setting;
               (r, done') = chansend done cmd
           in (r, done', s2))
      | (Returns (None, None), s1) \<Rightarrow> (Panics, done, s1)
      | (Returns (Some cs, None), s1) \<Rightarrow>
          (Returns (), done, logCall (CallSessAsyncPull cs uri args reply setting) s1))"

definition Pull :: "state \<Rightarrow> string \<Rightarrow> iface \<Rightarrow> iface \<Rightarrow> packetSetting list
    \<Rightarrow> pullCmd outcome \<times> state" where
  "Pull s uri args reply setting =
     (case getCliSession s uri of
        (Panics, s1) \<Rightarrow> (Panics, s1)
      | (Blocks, s1) \<Rightarrow> (Blocks, s1)
      | (Returns (cliSess, Some rerr), s1) \<Rightarrow>
          (let (cmd, s2) = NewFakePullCmd s1 uri args reply rerr setting
           in (Returns cmd, s2))
      | (Returns (None, None), s1) \<Rightarrow> (Panics, s1)
      | (Returns (Some cs, None), s1) \<Rightarrow>
          (Returns (SessPullCmd cs uri args reply setting),
           logCall (CallSessPull cs uri args reply setting) s1))"

definition Push :: "state \<Rightarrow> string \<Rightarrow> iface \<Rightarrow> packetSetting list
    \<Rightarrow> pushRet outcome \<times> state" where
  "Push s uri args setting =
     (case getCliSession s uri of
        (Panics, s1) \<Rightarrow> (Panics, s1)
      | (Blocks, s1) \<Rightarrow> (Blocks, s1)
      | (Returns (cliSess, Some rerr), s1) \<Rightarrow> (Returns (PushRerror (Some rerr)), s1)
      | (Returns (None, None), s1) \<Rightarrow> (Panics, s1)
      | (Returns (Some cs, None), s1) \<Rightarrow>
          (Returns (SessPushRet cs uri args setting),
           logCall (CallSessPush cs uri args setting) s1))"

section \<open>Goroutines running getCliSession\<close>

text \<open>
  The map's \<open>Load\<close> and \<open>Store\<close> are each atomic, and so are \<open>Select\<close> and the
  constructor as far as the pool is concerned. A goroutine inside \<open>getCliSession\<close> is at
  one of these four calls, holding its local variables, or it has finished.
\<close>

datatype pc =
    AtSelect string
  | AtLoad address
  | AtNew address
  | AtStore address cliSession
  | Finished "(cliSession option \<times> rerror option) outcome"

fun step :: "state \<Rightarrow> pc \<Rightarrow> pc \<times> state" where
  "step s (AtSelect uri0) =
     (case callSelect s (stripQuery uri0) of
        (Panics, s1) \<Rightarrow> (Finished Panics, s1)
      | (Blocks, s1) \<Rightarrow> (Finished Blocks, s1)
      | (Returns (addr, rerr), s1) \<Rightarrow>
          if rerr \<noteq> None then (Finished (Returns (None, rerr)), s1) else (AtLoad addr, s1))"
| "step s (AtLoad addr) =
     (case poolLoad s addr of
        (Some cs, s2) \<Rightarrow> (Finished (Returns (Some cs, None)), s2)
      | (None, s2) \<Rightarrow> (AtNew addr, s2))"
| "step s (AtNew addr) = (let (cliSess, s3) = callNew s addr in (AtStore addr cliSess, s3))"
| "step s (AtStore addr cliSess) =
     (Finished (Returns (Some cliSess, None)), poolStore s addr cliSess)"
| "step s (Finished r) = (Finished r, s)"

text \<open>One goroutine running on its own for \<open>n\<close> steps.\<close>

fun steps :: "nat \<Rightarrow> state \<Rightarrow> pc \<Rightarrow> pc \<times> state" where
  "steps 0 s p = (p, s)"
| "steps (Suc n) s p = (let (p', s') = step s p in steps n s' p')"

text \<open>
  Several goroutines over one client: the schedule names, step by step, the goroutine
  that runs next.
\<close>

definition schedStep :: "state \<times> pc list \<Rightarrow> nat \<Rightarrow> state \<times> pc list" where
  "schedStep cfg i =
     (let (s, ts) = cfg in
      if i < length ts then (let (p', s') = step s (ts ! i) in (s', ts[i := p'])) else cfg)"

definition runSchedule :: "state \<Rightarrow> pc list \<Rightarrow> nat list \<Rightarrow> state \<times> pc list" where
  "runSchedule s ts sched = foldl schedStep (s, ts) sched"

section \<open>Reading the call log\<close>

fun selectArgs :: "call list \<Rightarrow> string list" where
  "selectArgs [] = []"
| "selectArgs (CallSelect p # es) = p # selectArgs es"
| "selectArgs (e # es) = selectArgs es"

section \<open>Example values\<close>

text \<open>The zero value of \<open>CliConfig\<close>, a file system on which loading TLS material succeeds,
  and the client \<open>NewClient\<close> builds from them.\<close>

definition zeroConfig :: CliConfig where
  "zeroConfig =
     \<lparr> TlsCertFile = [], TlsKeyFile = [], DefaultReadTimeout = 0, DefaultWriteTimeout = 0,
       DefaultDialTimeout = 0, RedialTimes = 0, SlowCometDuration = 0, DefaultBodyCodec = [],
       PrintBody = False, CountTime = False, Network = [], Heartbeat = 0, SessMaxQuota = 0,
       SessMaxIdleDuration = 0 \<rparr>"

definition tlsOk :: "string \<Rightarrow> string \<Rightarrow> go_error option" where
  "tlsOk certFile keyFile = None"

definition zeroPeerConfig :: PeerConfig where
  "zeroPeerConfig =
     \<lparr> pcfg_DefaultReadTimeout = 0, pcfg_DefaultWriteTimeout = 0, pcfg_DefaultDialTimeout = 0,
       pcfg_RedialTimes = 0, pcfg_SlowCometDuration = 0, pcfg_DefaultBodyCodec = [],
       pcfg_PrintBody = False, pcfg_CountTime = False, pcfg_Network = [] \<rparr>"

definition freshClient :: Client where
  "freshClient =
     \<lparr> peer = \<lparr> peer_cfg = zeroPeerConfig, peer_plugins = [], peer_tls = None \<rparr>,
       linker = None,
       protoFunc = DefaultProtoFunc,
       cliSessPool = Map.empty,
       sessMaxQuota = 100,
       sessMaxIdleDuration = 180000000000 \<rparr>"

definition initState :: "Client \<Rightarrow> state" where
  "initState c = \<lparr> client = c, nsess = 0, calls = [] \<rparr>"

definition noRoute :: rerror where
  "noRoute = Rerror 404 ''NoRoute'' []"

definition noRouteLinker :: Linker where
  "noRouteLinker = OtherLinker (\<lambda>uriPath. ([], Some noRoute))"


definition bufferedChan :: chan where
  "bufferedChan =
     \<lparr> chan_cap = 1, chan_buf = [], chan_closed = False, chan_recvq = 0, chan_taken = [] \<rparr>"

text \<open>States over the client above: with no linker, with a static linker, and with a linker
  that fails on every path.\<close>

definition freshState :: state where
  "freshState = initState freshClient"

definition echoState :: state where
  "echoState = initState (SetLinker freshClient (NewStaticLinker ''127.0.0.1:9090''))"

definition noRouteState :: state where
  "noRouteState = initState (SetLinker freshClient noRouteLinker)"

text \<open>A linker that knows one path only, and a state over a client that uses it.\<close>

definition onePathLinker :: Linker where
  "onePathLinker =
     OtherLinker (\<lambda>uriPath. if uriPath = ''/svc/method'' then (''10.0.0.1:80'', None)
                              else ([], Some noRoute))"

definition onePathState :: state where
  "onePathState = initState (SetLinker freshClient onePathLinker)"

section \<open>Frame condition of a dispatch\<close>

text \<open>
  What a call on uri may change between the state \<open>s\<close> before and \<open>s'\<close> after: no field
  of the client but the pool, and the pool by at most one new address; by none when the
  linker is missing, when \<open>Select\<close> fails, or when the selected address is already there.
\<close>

definition onlyPoolGrows :: "state \<Rightarrow> string \<Rightarrow> state \<Rightarrow> bool" where
  "onlyPoolGrows s uri s' =
     (let c = client s; c' = client s'; pool = cliSessPool c; pool' = cliSessPool c' in
      peer c' = peer c \<and> linker c' = linker c \<and> protoFunc c' = protoFunc c
      \<and> sessMaxQuota c' = sessMaxQuota c \<and> sessMaxIdleDuration c' = sessMaxIdleDuration c
      \<and> (pool' = pool \<or> (\<exists>addr cs. pool addr = None \<and> pool' = pool(addr \<mapsto> cs)))
      \<and> (case linker c of
            None \<Rightarrow> pool' = pool
          | Some l \<Rightarrow>
              (snd (Select l (stripQuery uri)) \<noteq> None \<longrightarrow> pool' = pool)
              \<and> (fst (Select l (stripQuery uri)) \<in> dom pool \<longrightarrow> pool' = pool)))"

section \<open>Properties\<close>

lemma Minute_times_3: "Minute * 3 = (180000000000 :: duration)"
  by (simp add: Minute_def Second_def Nanosecond_def)

lemma sint_three_minutes: "sint (Minute * 3) = 180000000000"
  by (simp add: Minute_times_3)

subsection \<open>The path handed to Select\<close>

lemma NewClient_zeroConfig: "NewClient tlsOk zeroConfig [] = Inr freshClient"
  by (simp add: NewClient_def check_def zeroConfig_def freshClient_def NewPeer_def
      peerConfig_def zeroPeerConfig_def Minute_times_3)

lemma strings_Index_char:
  "strings_Index s [c] =
     (if c \<in> set s then int (length (takeWhile (\<lambda>x. x \<noteq> c) s)) else -1)"
proof (induction s)
  case Nil
  show ?case by simp
next
  case (Cons x t)
  show ?case
  proof (cases "x = c")
    case True
    then show ?thesis by simp
  next
    case False
    then have "strings_Index (x # t) [c] =
        (let r = strings_Index t [c] in if r = -1 then -1 else r + 1)"
      by simp
    also have "\<dots> = (if c \<in> set (x # t)
        then int (length (takeWhile (\<lambda>x. x \<noteq> c) (x # t))) else -1)"
      using False by (simp only: Cons.IH Let_def) auto
    finally show ?thesis .
  qed
qed

lemma stripQuery_takeWhile: "stripQuery uri = takeWhile (\<lambda>c. c \<noteq> CHR ''?'') uri"
proof (cases "CHR ''?'' \<in> set uri")
  case True
  have "take (length (takeWhile (\<lambda>c. c \<noteq> CHR ''?'') uri)) uri
      = takeWhile (\<lambda>c. c \<noteq> CHR ''?'') uri"
    by (rule takeWhile_eq_take [symmetric])
  with True show ?thesis
    by (simp add: stripQuery_def strings_Index_char Let_def)
next
  case False
  then have idx: "strings_Index uri ''?'' = -1"
    by (simp add: strings_Index_char)
  from False have "\<forall>x\<in>set uri. x \<noteq> CHR ''?''"
    by blast
  then have tw: "takeWhile (\<lambda>c. c \<noteq> CHR ''?'') uri = uri"
    by (rule takeWhile_eq_all_conv [THEN iffD2])
  show ?thesis
    unfolding tw stripQuery_def idx by simp
qed

lemma stripQuery_no_query: "CHR ''?'' \<notin> set (stripQuery uri)"
  unfolding stripQuery_takeWhile by (auto dest: set_takeWhileD)

lemma stripQuery_unchanged: "CHR ''?'' \<notin> set uri \<Longrightarrow> stripQuery uri = uri"
proof -
  assume "CHR ''?'' \<notin> set uri"
  then have "\<forall>x\<in>set uri. x \<noteq> CHR ''?''"
    by blast
  then have "takeWhile (\<lambda>c. c \<noteq> CHR ''?'') uri = uri"
    by (rule takeWhile_eq_all_conv [THEN iffD2])
  then show ?thesis
    by (simp only: stripQuery_takeWhile)
qed

lemma stripQuery_split: "\<exists>rest. uri = stripQuery uri @ rest \<and> (rest = [] \<or> hd rest = CHR ''?'')"
proof -
  let ?P = "\<lambda>c. c \<noteq> CHR ''?''"
  have "uri = takeWhile ?P uri @ dropWhile ?P uri"
    by simp
  moreover have "dropWhile ?P uri = [] \<or> hd (dropWhile ?P uri) = CHR ''?''"
    using hd_dropWhile [of ?P uri] by blast
  ultimately show ?thesis
    unfolding stripQuery_takeWhile by blast
qed

lemma getCliSession_no_linker:
  "linker (client s) = None \<Longrightarrow> getCliSession s uri = (Panics, s)"
  by (simp add: getCliSession_def callSelect_def)

lemma getCliSession_rerr:
  "linker (client s) = Some l \<Longrightarrow> Select l (stripQuery uri) = (addr, Some e) \<Longrightarrow>
   getCliSession s uri = (Returns (None, Some e), s\<lparr>calls := calls s @ [CallSelect (stripQuery uri)]\<rparr>)"
  by (simp add: getCliSession_def callSelect_def logCall_def)

lemma getCliSession_hit:
  "linker (client s) = Some l \<Longrightarrow> Select l (stripQuery uri) = (addr, None) \<Longrightarrow>
   cliSessPool (client s) addr = Some cs \<Longrightarrow>
   getCliSession s uri =
     (Returns (Some cs, None),
      s\<lparr>calls := calls s @ [CallSelect (stripQuery uri), CallLoad addr]\<rparr>)"
  by (simp add: getCliSession_def callSelect_def poolLoad_def logCall_def)

lemma getCliSession_miss:
  "linker (client s) = Some l \<Longrightarrow> Select l (stripQuery uri) = (addr, None) \<Longrightarrow>
   cliSessPool (client s) addr = None \<Longrightarrow>
   getCliSession s uri =
     (let c = client s;
          cs = New (nsess s) (peer c) addr (sessMaxQuota c) (sessMaxIdleDuration c)
      in (Returns (Some cs, None),
          s\<lparr>client := c\<lparr>cliSessPool := (cliSessPool c)(addr \<mapsto> cs)\<rparr>,
            nsess := Suc (nsess s),
            calls := calls s @ [CallSelect (stripQuery uri), CallLoad addr,
                       CallNew (peer c) addr (sessMaxQuota c) (sessMaxIdleDuration c),
                       CallStore addr cs]\<rparr>))"
  by (simp add: getCliSession_def callSelect_def poolLoad_def callNew_def poolStore_def
      logCall_def Let_def)

lemma steps_getCliSession:
  "steps 4 s (AtSelect uri) = (case getCliSession s uri of (r, s') \<Rightarrow> (Finished r, s'))"
  by (simp add: numeral_eq_Suc getCliSession_def Let_def
      split: prod.splits outcome.splits option.splits)

subsection \<open>Configuration\<close>

lemma check_fields:
  "check c =
     (c\<lparr>SessMaxQuota := (if sint (SessMaxQuota c) \<le> 0 then 100 else SessMaxQuota c),
        SessMaxIdleDuration :=
          (if sint (SessMaxIdleDuration c) \<le> 0 then 180000000000 else SessMaxIdleDuration c)\<rparr>,
      None)"
  by (simp add: check_def Let_def Minute_times_3)

lemma NewClient_Inr_fields:
  assumes "NewClient loadTls cfg plugin = Inr c"
  shows "sessMaxQuota c = SessMaxQuota (fst (check cfg))"
    and "sessMaxIdleDuration c = SessMaxIdleDuration (fst (check cfg))"
    and "linker c = None"
    and "cliSessPool c = Map.empty"
  using assms
  by (auto simp: NewClient_def check_fields Let_def SetTlsConfigFromFile_def
      split: if_splits option.splits)

text \<open>
  C5. A client that \<open>NewClient\<close> returns has pool capacity 100 when the configured
  \<open>SessMaxQuota\<close> is not positive and idle duration three minutes (180000000000 ns) when
  the configured \<open>SessMaxIdleDuration\<close> is not positive; positive values are kept as
  they are.
\<close>

theorem NewClient_config_defaults:
  assumes "NewClient loadTls cfg plugin = Inr c"
  shows "sessMaxQuota c = (if sint (SessMaxQuota cfg) \<le> 0 then 100 else SessMaxQuota cfg)
       \<and> sessMaxIdleDuration c =
           (if sint (SessMaxIdleDuration cfg) \<le> 0 then Minute * 3 else SessMaxIdleDuration cfg)
       \<and> sint (Minute * 3) = 3 * 60 * 1000000000"
  using NewClient_Inr_fields(1,2) [OF assms]
  by (simp add: check_fields Minute_times_3)

theorem NewClient_config_defaults_witness:
  "NewClient tlsOk zeroConfig [] = Inr freshClient
   \<and> sint (SessMaxQuota zeroConfig) \<le> 0 \<and> sint (SessMaxIdleDuration zeroConfig) \<le> 0
   \<and> sessMaxQuota freshClient = 100
   \<and> sessMaxIdleDuration freshClient = Minute * 3"
proof -
  have z: "sint (SessMaxQuota zeroConfig) \<le> 0" "sint (SessMaxIdleDuration zeroConfig) \<le> 0"
    by (simp_all add: zeroConfig_def)
  from NewClient_config_defaults [OF NewClient_zeroConfig] z
  have "sessMaxQuota freshClient = 100" "sessMaxIdleDuration freshClient = Minute * 3"
    by simp_all
  with z NewClient_zeroConfig show ?thesis
    by blast
qed

text \<open>
  C10. \<open>check\<close> returns no error for any configuration and changes nothing but the two
  pool fields, so \<open>NewClient\<close> never ends in the fatal branch of line 95.
\<close>

theorem check_never_fails:
  "snd (check c) = None
   \<and> fst (check c) = c\<lparr>SessMaxQuota := SessMaxQuota (fst (check c)),
                         SessMaxIdleDuration := SessMaxIdleDuration (fst (check c))\<rparr>
   \<and> NewClient loadTls c plugin \<noteq> Inl (FatalCheck err)"
  by (simp add: check_fields NewClient_def Let_def SetTlsConfigFromFile_def
      split: option.splits)

subsection \<open>The static linker\<close>

text \<open>
  C6. The linker built by \<open>NewStaticLinker A\<close> selects \<open>A\<close> for every path and returns
  no error.
\<close>

theorem staticLinker_Select_fixed:
  "Select (NewStaticLinker A) uriPath = (A, None)"
  by (simp add: NewStaticLinker_def staticLinker_Select_def)

subsection \<open>The three methods in terms of getCliSession\<close>

lemma Pull_rerr:
  assumes "linker (client s) = Some l" and "Select l (stripQuery uri) = (addr, Some e)"
  shows "Pull s uri args reply setting =
     (Returns (FakePullCmd (peer (client s)) uri args reply e setting),
      s\<lparr>calls := calls s @ [CallSelect (stripQuery uri),
             CallNewFakePullCmd (peer (client s)) uri args reply e setting]\<rparr>)"
  by (simp add: Pull_def getCliSession_rerr [OF assms] NewFakePullCmd_def logCall_def Let_def)

lemma Push_rerr:
  assumes "linker (client s) = Some l" and "Select l (stripQuery uri) = (addr, Some e)"
  shows "Push s uri args setting =
     (Returns (PushRerror (Some e)), s\<lparr>calls := calls s @ [CallSelect (stripQuery uri)]\<rparr>)"
  by (simp add: Push_def getCliSession_rerr [OF assms])

lemma AsyncPull_rerr:
  assumes "linker (client s) = Some l" and "Select l (stripQuery uri) = (addr, Some e)"
  shows "AsyncPull s uri args reply done setting =
     (fst (chansend done (FakePullCmd (peer (client s)) uri args reply e setting)),
      snd (chansend done (FakePullCmd (peer (client s)) uri args reply e setting)),
      s\<lparr>calls := calls s @ [CallSelect (stripQuery uri),
             CallNewFakePullCmd (peer (client s)) uri args reply e setting]\<rparr>)"
  by (simp add: AsyncPull_def getCliSession_rerr [OF assms] NewFakePullCmd_def logCall_def Let_def
      split: prod.splits)



lemma Pull_client: "client (snd (Pull s uri args reply setting)) = client (snd (getCliSession s uri))"
  and Pull_nsess: "nsess (snd (Pull s uri args reply setting)) = nsess (snd (getCliSession s uri))"
  by (auto simp: Pull_def NewFakePullCmd_def logCall_def Let_def
      split: prod.splits outcome.splits option.splits)

lemma Push_client: "client (snd (Push s uri args setting)) = client (snd (getCliSession s uri))"
  and Push_nsess: "nsess (snd (Push s uri args setting)) = nsess (snd (getCliSession s uri))"
  by (auto simp: Push_def logCall_def split: prod.splits outcome.splits option.splits)

lemma AsyncPull_client:
  "client (snd (snd (AsyncPull s uri args reply done setting))) = client (snd (getCliSession s uri))"
  and AsyncPull_nsess:
  "nsess (snd (snd (AsyncPull s uri args reply done setting))) = nsess (snd (getCliSession s uri))"
  by (auto simp: AsyncPull_def NewFakePullCmd_def logCall_def Let_def
      split: prod.splits outcome.splits option.splits)

lemma selectArgs_append: "selectArgs (xs @ ys) = selectArgs xs @ selectArgs ys"
  by (induction xs rule: selectArgs.induct) simp_all

lemma getCliSession_selectArgs:
  "selectArgs (calls (snd (getCliSession s uri))) =
     selectArgs (calls s) @ (case linker (client s) of None \<Rightarrow> [] | Some l \<Rightarrow> [stripQuery uri])"
  by (auto simp: getCliSession_def callSelect_def poolLoad_def callNew_def poolStore_def
      logCall_def Let_def selectArgs_append split: option.splits prod.splits)

lemma Pull_selectArgs:
  "selectArgs (calls (snd (Pull s uri args reply setting))) =
     selectArgs (calls (snd (getCliSession s uri)))"
  by (auto simp: Pull_def NewFakePullCmd_def logCall_def Let_def selectArgs_append
      split: prod.splits outcome.splits option.splits)

lemma Push_selectArgs:
  "selectArgs (calls (snd (Push s uri args setting))) =
     selectArgs (calls (snd (getCliSession s uri)))"
  by (auto simp: Push_def logCall_def selectArgs_append
      split: prod.splits outcome.splits option.splits)

lemma AsyncPull_selectArgs:
  "selectArgs (calls (snd (snd (AsyncPull s uri args reply done setting)))) =
     selectArgs (calls (snd (getCliSession s uri)))"
  by (auto simp: AsyncPull_def NewFakePullCmd_def logCall_def Let_def selectArgs_append
      split: prod.splits outcome.splits option.splits)

subsection \<open>Dispatch\<close>

lemma getCliSession_frame: "onlyPoolGrows s uri (snd (getCliSession s uri))"
proof (cases "linker (client s)")
  case None
  then show ?thesis
    by (simp add: getCliSession_no_linker onlyPoolGrows_def)
next
  case (Some l)
  obtain addr rerr where sel: "Select l (stripQuery uri) = (addr, rerr)"
    by (cases "Select l (stripQuery uri)")
  show ?thesis
  proof (cases rerr)
    case (Some e)
    with \<open>linker (client s) = Some l\<close> sel show ?thesis
      by (simp add: getCliSession_rerr onlyPoolGrows_def)
  next
    case None
    note ok = None
    show ?thesis
    proof (cases "cliSessPool (client s) addr")
      case None
      with \<open>linker (client s) = Some l\<close> sel ok
      have "getCliSession s uri =
         (let c = client s;
              cs = New (nsess s) (peer c) addr (sessMaxQuota c) (sessMaxIdleDuration c)
          in (Returns (Some cs, None),
              s\<lparr>client := c\<lparr>cliSessPool := (cliSessPool c)(addr \<mapsto> cs)\<rparr>,
                nsess := Suc (nsess s),
                calls := calls s @ [CallSelect (stripQuery uri), CallLoad addr,
                           CallNew (peer c) addr (sessMaxQuota c) (sessMaxIdleDuration c),
                           CallStore addr cs]\<rparr>))"
        by (simp add: getCliSession_miss)
      with None \<open>linker (client s) = Some l\<close> sel ok show ?thesis
        by (auto simp: onlyPoolGrows_def Let_def)
    next
      case (Some cs)
      with \<open>linker (client s) = Some l\<close> sel ok show ?thesis
        by (simp add: getCliSession_hit onlyPoolGrows_def)
    qed
  qed
qed

lemma onlyPoolGrows_client:
  "client s1 = client s2 \<Longrightarrow> onlyPoolGrows s uri s1 = onlyPoolGrows s uri s2"
  by (simp add: onlyPoolGrows_def)

text \<open>
  C9. \<open>Pull\<close>, \<open>Push\<close> and \<open>AsyncPull\<close> leave the client's \<open>peer\<close>, \<open>linker\<close>,
  \<open>protoFunc\<close>, \<open>sessMaxQuota\<close> and \<open>sessMaxIdleDuration\<close> as they were; the pool is
  the only field that may change, by at most one added address, and by none when
  \<open>Select\<close> fails or the address is already in the pool.
\<close>
theorem dispatch_only_pool_grows:
  "onlyPoolGrows s uri (snd (Pull s uri args reply setting))
   \<and> onlyPoolGrows s uri (snd (Push s uri args setting))
   \<and> onlyPoolGrows s uri (snd (snd (AsyncPull s uri args reply done setting)))"
  using getCliSession_frame [of s uri]
    onlyPoolGrows_client [OF Pull_client, of s uri s uri args reply setting]
    onlyPoolGrows_client [OF Push_client, of s uri s uri args setting]
    onlyPoolGrows_client [OF AsyncPull_client, of s uri s uri args reply "done" setting]
  by simp


lemma freshState_simps:
  "client freshState = freshClient" "nsess freshState = 0" "calls freshState = []"
  by (simp_all add: freshState_def initState_def)

lemma echoState_simps:
  "linker (client echoState) = Some (NewStaticLinker ''127.0.0.1:9090'')"
  "cliSessPool (client echoState) = Map.empty"
  "peer (client echoState) = peer freshClient"
  "protoFunc (client echoState) = DefaultProtoFunc"
  "sessMaxQuota (client echoState) = 100"
  "sessMaxIdleDuration (client echoState) = 180000000000"
  "nsess echoState = 0" "calls echoState = []"
  by (simp_all add: echoState_def initState_def SetLinker_def freshClient_def)

lemma noRouteState_simps:
  "linker (client noRouteState) = Some noRouteLinker"
  "cliSessPool (client noRouteState) = Map.empty"
  "peer (client noRouteState) = peer freshClient"
  "nsess noRouteState = 0" "calls noRouteState = []"
  by (simp_all add: noRouteState_def initState_def SetLinker_def freshClient_def)

lemma noRouteLinker_Select: "Select noRouteLinker p = ([], Some noRoute)"
  by (simp add: noRouteLinker_def)

lemma stripQuery_examples:
  "stripQuery ''/svc/method?x=1'' = ''/svc/method''"
  "stripQuery ''/svc/method'' = ''/svc/method''"
  "stripQuery ''/x?y=1'' = ''/x''"
  "stripQuery ''/x'' = ''/x''"
  "stripQuery ''/echo'' = ''/echo''"
  by (simp_all add: stripQuery_takeWhile)

lemma onePathState_simps:
  "linker (client onePathState) = Some onePathLinker"
  "cliSessPool (client onePathState) = Map.empty"
  "peer (client onePathState) = peer freshClient"
  "sessMaxQuota (client onePathState) = 100"
  "sessMaxIdleDuration (client onePathState) = 180000000000"
  "nsess onePathState = 0" "calls onePathState = []"
  by (simp_all add: onePathState_def initState_def SetLinker_def freshClient_def)

lemma onePathLinker_Select:
  "Select onePathLinker ''/svc/method'' = (''10.0.0.1:80'', None)"
  "Select onePathLinker ''/svc/method?x=1'' = ([], Some noRoute)"
  by (simp_all add: onePathLinker_def)

text \<open>
  C4. With a linker set, each of the three methods calls \<open>Select\<close> exactly once, with
  the uri cut before its first \<open>?\<close>: the argument is the longest prefix without a
  \<open>?\<close>, and it is the whole uri when the uri has none. What \<open>Select\<close> returns for
  that prefix, and nothing else of the linker, decides the outcome: its error is the one
  handed back, its address is the one looked up in the pool and given to the session, and
  the methods pass on the uri as the caller gave it.
\<close>

theorem Select_called_with_path:
  assumes "linker (client s) = Some l"
  shows "selectArgs (calls (snd (Pull s uri args reply setting)))
           = selectArgs (calls s) @ [stripQuery uri]
       \<and> selectArgs (calls (snd (Push s uri args setting)))
           = selectArgs (calls s) @ [stripQuery uri]
       \<and> selectArgs (calls (snd (snd (AsyncPull s uri args reply done setting))))
           = selectArgs (calls s) @ [stripQuery uri]
       \<and> stripQuery uri = takeWhile (\<lambda>c. c \<noteq> CHR ''?'') uri
       \<and> CHR ''?'' \<notin> set (stripQuery uri)
       \<and> (CHR ''?'' \<notin> set uri \<longrightarrow> stripQuery uri = uri)
       \<and> (\<exists>rest. uri = stripQuery uri @ rest \<and> (rest = [] \<or> hd rest = CHR ''?''))
       \<and> (case Select l (takeWhile (\<lambda>c. c \<noteq> CHR ''?'') uri) of
            (addr, rerr) \<Rightarrow>
              (let c = client s;
                   sess = (case cliSessPool c addr of
                             Some cs \<Rightarrow> cs
                           | None \<Rightarrow> New (nsess s) (peer c) addr (sessMaxQuota c)
                                       (sessMaxIdleDuration c));
                   fake = (\<lambda>e. FakePullCmd (peer c) uri args reply e setting)
               in fst (getCliSession s uri) =
                    (case rerr of Some e \<Rightarrow> Returns (None, Some e)
                                | None \<Rightarrow> Returns (Some sess, None))
                  \<and> fst (Pull s uri args reply setting) =
                    (case rerr of Some e \<Rightarrow> Returns (fake e)
                                | None \<Rightarrow> Returns (SessPullCmd sess uri args reply setting))
                  \<and> fst (Push s uri args setting) =
                    (case rerr of Some e \<Rightarrow> Returns (PushRerror (Some e))
                                | None \<Rightarrow> Returns (SessPushRet sess uri args setting))
                  \<and> fst (AsyncPull s uri args reply done setting) =
                    (case rerr of Some e \<Rightarrow> fst (chansend done (fake e))
                                | None \<Rightarrow> Returns ())
                  \<and> (rerr = None \<longrightarrow>
                       cliSessPool (client (snd (getCliSession s uri))) addr = Some sess)))"
proof -
  have log: "selectArgs (calls (snd (getCliSession s uri)))
      = selectArgs (calls s) @ [stripQuery uri]"
    using assms by (simp add: getCliSession_selectArgs)
  have path: "stripQuery uri = takeWhile (\<lambda>c. c \<noteq> CHR ''?'') uri
       \<and> CHR ''?'' \<notin> set (stripQuery uri)
       \<and> (CHR ''?'' \<notin> set uri \<longrightarrow> stripQuery uri = uri)
       \<and> (\<exists>rest. uri = stripQuery uri @ rest \<and> (rest = [] \<or> hd rest = CHR ''?''))"
    using stripQuery_takeWhile [of uri] stripQuery_no_query [of uri]
      stripQuery_unchanged [of uri] stripQuery_split [of uri]
    by blast
  obtain addr rerr where sel: "Select l (stripQuery uri) = (addr, rerr)"
    by (cases "Select l (stripQuery uri)")
  have res: "(case Select l (takeWhile (\<lambda>c. c \<noteq> CHR ''?'') uri) of
            (addr, rerr) \<Rightarrow>
              (let c = client s;
                   sess = (case cliSessPool c addr of
                             Some cs \<Rightarrow> cs
                           | None \<Rightarrow> New (nsess s) (peer c) addr (sessMaxQuota c)
                                       (sessMaxIdleDuration c));
                   fake = (\<lambda>e. FakePullCmd (peer c) uri args reply e setting)
               in fst (getCliSession s uri) =
                    (case rerr of Some e \<Rightarrow> Returns (None, Some e)
                                | None \<Rightarrow> Returns (Some sess, None))
                  \<and> fst (Pull s uri args reply setting) =
                    (case rerr of Some e \<Rightarrow> Returns (fake e)
                                | None \<Rightarrow> Returns (SessPullCmd sess uri args reply setting))
                  \<and> fst (Push s uri args setting) =
                    (case rerr of Some e \<Rightarrow> Returns (PushRerror (Some e))
                                | None \<Rightarrow> Returns (SessPushRet sess uri args setting))
                  \<and> fst (AsyncPull s uri args reply done setting) =
                    (case rerr of Some e \<Rightarrow> fst (chansend done (fake e))
                                | None \<Rightarrow> Returns ())
                  \<and> (rerr = None \<longrightarrow>
                       cliSessPool (client (snd (getCliSession s uri))) addr = Some sess)))"
    unfolding stripQuery_takeWhile [symmetric] sel prod.case
    using assms sel
    by (auto simp: getCliSession_def callSelect_def poolLoad_def callNew_def poolStore_def
        Pull_def Push_def AsyncPull_def NewFakePullCmd_def logCall_def Let_def
        split: option.splits prod.splits)
  from log have "selectArgs (calls (snd (Pull s uri args reply setting)))
           = selectArgs (calls s) @ [stripQuery uri]
       \<and> selectArgs (calls (snd (Push s uri args setting)))
           = selectArgs (calls s) @ [stripQuery uri]
       \<and> selectArgs (calls (snd (snd (AsyncPull s uri args reply done setting))))
           = selectArgs (calls s) @ [stripQuery uri]"
    by (simp only: Pull_selectArgs Push_selectArgs AsyncPull_selectArgs)
  with path res show ?thesis
    by blast
qed

theorem Select_called_with_path_witness:
  "linker (client echoState) = Some (NewStaticLinker ''127.0.0.1:9090'')
   \<and> selectArgs (calls (snd (Pull echoState ''/svc/method?x=1'' INil INil []))) = [''/svc/method'']
   \<and> selectArgs (calls (snd (Pull echoState ''/svc/method'' INil INil []))) = [''/svc/method'']
   \<and> linker (client onePathState) = Some onePathLinker
   \<and> Select onePathLinker ''/svc/method?x=1'' = ([], Some noRoute)
   \<and> Select onePathLinker ''/svc/method'' = (''10.0.0.1:80'', None)
   \<and> fst (Pull onePathState ''/svc/method?x=1'' INil INil []) =
       Returns (SessPullCmd (New 0 (peer freshClient) ''10.0.0.1:80'' 100 180000000000)
                  ''/svc/method?x=1'' INil INil [])
   \<and> fst (Push onePathState ''/svc/method?x=1'' INil []) =
       Returns (SessPushRet (New 0 (peer freshClient) ''10.0.0.1:80'' 100 180000000000)
                  ''/svc/method?x=1'' INil [])
   \<and> fst (getCliSession onePathState ''/svc/method?x=1'') =
       Returns (Some (New 0 (peer freshClient) ''10.0.0.1:80'' 100 180000000000), None)
   \<and> fst (callSelect onePathState (stripQuery ''/svc/method?x=1''))
       = Returns (''10.0.0.1:80'', None)"
proof -
  note e1 = Select_called_with_path [OF echoState_simps(1), of "''/svc/method?x=1''" INil INil "[]"]
  note e2 = Select_called_with_path [OF echoState_simps(1), of "''/svc/method''" INil INil "[]"]
  note o = Select_called_with_path [OF onePathState_simps(1), of "''/svc/method?x=1''"
      INil INil "[]" None]
  have tw: "takeWhile (\<lambda>c. c \<noteq> CHR ''?'') ''/svc/method?x=1'' = ''/svc/method''"
    by simp
  have "selectArgs (calls (snd (Pull echoState ''/svc/method?x=1'' INil INil []))) = [''/svc/method'']"
    "selectArgs (calls (snd (Pull echoState ''/svc/method'' INil INil []))) = [''/svc/method'']"
    using e1 e2 by (simp_all add: echoState_simps stripQuery_examples)
  moreover from o have "fst (Pull onePathState ''/svc/method?x=1'' INil INil []) =
       Returns (SessPullCmd (New 0 (peer freshClient) ''10.0.0.1:80'' 100 180000000000)
                  ''/svc/method?x=1'' INil INil [])"
    "fst (Push onePathState ''/svc/method?x=1'' INil []) =
       Returns (SessPushRet (New 0 (peer freshClient) ''10.0.0.1:80'' 100 180000000000)
                  ''/svc/method?x=1'' INil [])"
    "fst (getCliSession onePathState ''/svc/method?x=1'') =
       Returns (Some (New 0 (peer freshClient) ''10.0.0.1:80'' 100 180000000000), None)"
    unfolding tw onePathLinker_Select
    by (simp_all add: Let_def onePathState_simps)
  moreover have "fst (callSelect onePathState (stripQuery ''/svc/method?x=1''))
      = Returns (''10.0.0.1:80'', None)"
    by (simp add: callSelect_def onePathState_simps onePathLinker_def stripQuery_def)
  ultimately show ?thesis
    using echoState_simps(1) onePathState_simps(1) onePathLinker_Select by blast
qed

text \<open>
  C7. When the selected address is not in the pool, \<open>cliSession.New\<close> is called with
  the client's \<open>peer\<close>, the selected address, the client's \<open>sessMaxQuota\<close> and its
  \<open>sessMaxIdleDuration\<close>, in this order, and the session it returns is the one stored
  and returned. For a client built by \<open>NewClient\<close> the last two are the checked values
  of the configuration.
\<close>
theorem New_gets_client_fields:
  assumes "linker (client s) = Some l"
    and "Select l (stripQuery uri) = (addr, None)"
    and "cliSessPool (client s) addr = None"
  shows "(let c = client s;
              cs = New (nsess s) (peer c) addr (sessMaxQuota c) (sessMaxIdleDuration c);
              s' = snd (getCliSession s uri)
          in fst (getCliSession s uri) = Returns (Some cs, None)
             \<and> calls s' = calls s @ [CallSelect (stripQuery uri), CallLoad addr,
                   CallNew (peer c) addr (sessMaxQuota c) (sessMaxIdleDuration c),
                   CallStore addr cs]
             \<and> cliSessPool (client s') = (cliSessPool c)(addr \<mapsto> cs)
             \<and> nsess s' = Suc (nsess s))
       \<and> (\<forall>loadTls cfg plugin c0.
             NewClient loadTls cfg plugin = Inr c0 \<and> client s = SetLinker c0 l \<longrightarrow>
               peer (client s) = peer c0
               \<and> sessMaxQuota (client s)
                   = (if sint (SessMaxQuota cfg) \<le> 0 then 100 else SessMaxQuota cfg)
               \<and> sessMaxIdleDuration (client s)
                   = (if sint (SessMaxIdleDuration cfg) \<le> 0 then Minute * 3
                      else SessMaxIdleDuration cfg))"
proof -
  have "\<And>loadTls cfg plugin c0.
      NewClient loadTls cfg plugin = Inr c0 \<Longrightarrow> client s = SetLinker c0 l \<Longrightarrow>
        peer (client s) = peer c0
        \<and> sessMaxQuota (client s)
            = (if sint (SessMaxQuota cfg) \<le> 0 then 100 else SessMaxQuota cfg)
        \<and> sessMaxIdleDuration (client s)
            = (if sint (SessMaxIdleDuration cfg) \<le> 0 then Minute * 3
               else SessMaxIdleDuration cfg)"
    using NewClient_Inr_fields(1,2)
    by (simp add: SetLinker_def check_fields Minute_times_3)
  then have norm: "\<forall>loadTls cfg plugin c0.
      NewClient loadTls cfg plugin = Inr c0 \<and> client s = SetLinker c0 l \<longrightarrow>
        peer (client s) = peer c0
        \<and> sessMaxQuota (client s)
            = (if sint (SessMaxQuota cfg) \<le> 0 then 100 else SessMaxQuota cfg)
        \<and> sessMaxIdleDuration (client s)
            = (if sint (SessMaxIdleDuration cfg) \<le> 0 then Minute * 3
               else SessMaxIdleDuration cfg)"
    by blast
  have "let c = client s;
            cs = New (nsess s) (peer c) addr (sessMaxQuota c) (sessMaxIdleDuration c);
            s' = snd (getCliSession s uri)
        in fst (getCliSession s uri) = Returns (Some cs, None)
           \<and> calls s' = calls s @ [CallSelect (stripQuery uri), CallLoad addr,
                 CallNew (peer c) addr (sessMaxQuota c) (sessMaxIdleDuration c),
                 CallStore addr cs]
           \<and> cliSessPool (client s') = (cliSessPool c)(addr \<mapsto> cs)
           \<and> nsess s' = Suc (nsess s)"
    by (simp add: getCliSession_miss [OF assms] Let_def)
  with norm show ?thesis
    by (rule conjI [rotated])
qed

theorem New_gets_client_fields_witness:
  "linker (client echoState) = Some (NewStaticLinker ''127.0.0.1:9090'')
   \<and> Select (NewStaticLinker ''127.0.0.1:9090'') (stripQuery ''/echo'') = (''127.0.0.1:9090'', None)
   \<and> cliSessPool (client echoState) ''127.0.0.1:9090'' = None
   \<and> NewClient tlsOk zeroConfig [] = Inr freshClient
   \<and> client echoState = SetLinker freshClient (NewStaticLinker ''127.0.0.1:9090'')
   \<and> calls (snd (getCliSession echoState ''/echo'')) =
       [CallSelect ''/echo'', CallLoad ''127.0.0.1:9090'',
        CallNew (peer freshClient) ''127.0.0.1:9090'' 100 180000000000,
        CallStore ''127.0.0.1:9090''
          (New 0 (peer freshClient) ''127.0.0.1:9090'' 100 180000000000)]"
proof -
  have sel: "Select (NewStaticLinker ''127.0.0.1:9090'') (stripQuery ''/echo'')
      = (''127.0.0.1:9090'', None)"
    by (simp add: NewStaticLinker_def staticLinker_Select_def)
  have miss: "cliSessPool (client echoState) ''127.0.0.1:9090'' = None"
    by (simp add: echoState_simps)
  have cl: "client echoState = SetLinker freshClient (NewStaticLinker ''127.0.0.1:9090'')"
    by (simp add: echoState_def initState_def)
  from New_gets_client_fields [OF echoState_simps(1) sel miss]
  have "calls (snd (getCliSession echoState ''/echo'')) =
       [CallSelect ''/echo'', CallLoad ''127.0.0.1:9090'',
        CallNew (peer freshClient) ''127.0.0.1:9090'' 100 180000000000,
        CallStore ''127.0.0.1:9090''
          (New 0 (peer freshClient) ''127.0.0.1:9090'' 100 180000000000)]"
    by (simp add: Let_def echoState_simps stripQuery_examples)
  with sel miss cl NewClient_zeroConfig echoState_simps(1) show ?thesis
    by blast
qed

text \<open>
  C8. When \<open>Select\<close> fails, the failed result that \<open>Pull\<close> returns and that
  \<open>AsyncPull\<close> sends on the channel is built from the uri as the caller gave it, query
  included, while \<open>Select\<close> was called with the cut path.
\<close>
theorem fake_result_keeps_original_uri:
  assumes "linker (client s) = Some l"
    and "Select l (stripQuery uri) = (addr, Some e)"
  shows "(let cmd = FakePullCmd (peer (client s)) uri args reply e setting in
            fst (Pull s uri args reply setting) = Returns cmd
            \<and> fst (AsyncPull s uri args reply done setting) = fst (chansend done cmd)
            \<and> fst (snd (AsyncPull s uri args reply done setting)) = snd (chansend done cmd)
            \<and> calls (snd (Pull s uri args reply setting)) =
                calls s @ [CallSelect (stripQuery uri),
                  CallNewFakePullCmd (peer (client s)) uri args reply e setting]
            \<and> calls (snd (snd (AsyncPull s uri args reply done setting))) =
                calls s @ [CallSelect (stripQuery uri),
                  CallNewFakePullCmd (peer (client s)) uri args reply e setting])"
  by (simp add: Pull_rerr [OF assms] AsyncPull_rerr [OF assms] Let_def)

theorem fake_result_keeps_original_uri_witness:
  "linker (client noRouteState) = Some noRouteLinker
   \<and> Select noRouteLinker (stripQuery ''/x?y=1'') = ([], Some noRoute)
   \<and> stripQuery ''/x?y=1'' = ''/x''
   \<and> fst (Pull noRouteState ''/x?y=1'' INil INil [])
       = Returns (FakePullCmd (peer freshClient) ''/x?y=1'' INil INil noRoute [])
   \<and> delivered (fst (snd (AsyncPull noRouteState ''/x?y=1'' INil INil (Some bufferedChan) [])))
       = [FakePullCmd (peer freshClient) ''/x?y=1'' INil INil noRoute []]
   \<and> calls (snd (Pull noRouteState ''/x?y=1'' INil INil [])) =
       [CallSelect ''/x'',
        CallNewFakePullCmd (peer freshClient) ''/x?y=1'' INil INil noRoute []]"
proof -
  note w = fake_result_keeps_original_uri [OF noRouteState_simps(1) noRouteLinker_Select,
      of "''/x?y=1''" INil INil "[]" "Some bufferedChan"]
  have "fst (Pull noRouteState ''/x?y=1'' INil INil [])
       = Returns (FakePullCmd (peer freshClient) ''/x?y=1'' INil INil noRoute [])"
    using w by (simp add: Let_def noRouteState_simps)
  moreover have "delivered (fst (snd (AsyncPull noRouteState ''/x?y=1'' INil INil (Some bufferedChan) [])))
       = [FakePullCmd (peer freshClient) ''/x?y=1'' INil INil noRoute []]"
    using w by (simp add: Let_def noRouteState_simps chansend_def bufferedChan_def delivered_def)
  moreover have "calls (snd (Pull noRouteState ''/x?y=1'' INil INil [])) =
       [CallSelect ''/x'',
        CallNewFakePullCmd (peer freshClient) ''/x?y=1'' INil INil noRoute []]"
    using w by (simp add: Let_def noRouteState_simps stripQuery_examples)
  ultimately show ?thesis
    using noRouteState_simps(1) noRouteLinker_Select stripQuery_examples(3) by blast
qed





text \<open>
  C3, as stated, fails: on the client that \<open>NewClient\<close> returns, which has no linker,
  \<open>Push\<close> ends in the panic of the method call on the nil interface instead of
  returning an error.
\<close>
theorem Push_no_linker_panics:
  "NewClient tlsOk zeroConfig [] = Inr (client freshState)
   \<and> linker (client freshState) = None
   \<and> fst (Push freshState ''/x'' INil []) = Panics"
  by (simp add: NewClient_zeroConfig freshState_simps Push_def getCliSession_no_linker
      freshClient_def)

text \<open>
  C3, amended. On a client with an empty pool whose linker fails on every path with
  the same error, \<open>Push\<close> returns that error, the pool stays empty and no session is
  created; with no linker set the pool stays empty and no session is created either.
\<close>
theorem Push_failing_linker:
  assumes "cliSessPool (client s) = Map.empty"
  shows "(\<forall>l e. linker (client s) = Some l \<and> (\<forall>p. snd (Select l p) = Some e) \<longrightarrow>
            fst (Push s uri args setting) = Returns (PushRerror (Some e))
            \<and> cliSessPool (client (snd (Push s uri args setting))) = Map.empty
            \<and> nsess (snd (Push s uri args setting)) = nsess s)
       \<and> (linker (client s) = None \<longrightarrow>
            cliSessPool (client (snd (Push s uri args setting))) = Map.empty
            \<and> nsess (snd (Push s uri args setting)) = nsess s)"
proof -
  have fails: "fst (Push s uri args setting) = Returns (PushRerror (Some e))
      \<and> cliSessPool (client (snd (Push s uri args setting))) = Map.empty
      \<and> nsess (snd (Push s uri args setting)) = nsess s"
    if "linker (client s) = Some l" and "\<forall>p. snd (Select l p) = Some e" for l e
  proof -
    from that(2) have "Select l (stripQuery uri) = (fst (Select l (stripQuery uri)), Some e)"
      by (metis prod.collapse)
    from Push_rerr [OF that(1) this] assms show ?thesis
      by simp
  qed
  have unset: "cliSessPool (client (snd (Push s uri args setting))) = Map.empty
      \<and> nsess (snd (Push s uri args setting)) = nsess s"
    if "linker (client s) = None"
    using that assms by (simp add: Push_client Push_nsess getCliSession_no_linker)
  from fails unset show ?thesis
    by blast
qed

theorem Push_failing_linker_witness:
  "cliSessPool (client noRouteState) = Map.empty
   \<and> linker (client noRouteState) = Some noRouteLinker
   \<and> (\<forall>p. snd (Select noRouteLinker p) = Some noRoute)
   \<and> fst (Push noRouteState ''/x'' INil []) = Returns (PushRerror (Some noRoute))
   \<and> cliSessPool (client (snd (Push noRouteState ''/x'' INil []))) = Map.empty
   \<and> cliSessPool (client freshState) = Map.empty
   \<and> linker (client freshState) = None
   \<and> cliSessPool (client (snd (Push freshState ''/x'' INil []))) = Map.empty"
proof -
  have f: "cliSessPool (client freshState) = Map.empty" "linker (client freshState) = None"
    by (simp_all add: freshState_simps freshClient_def)
  have n: "\<forall>p. snd (Select noRouteLinker p) = Some noRoute"
    by (simp add: noRouteLinker_Select)
  from Push_failing_linker [OF noRouteState_simps(2), of "''/x''" INil "[]"]
    noRouteState_simps(1) n
  have "fst (Push noRouteState ''/x'' INil []) = Returns (PushRerror (Some noRoute))"
    "cliSessPool (client (snd (Push noRouteState ''/x'' INil []))) = Map.empty"
    by blast+
  moreover from Push_failing_linker [OF f(1), of "''/x''" INil "[]"] f(2)
  have "cliSessPool (client (snd (Push freshState ''/x'' INil []))) = Map.empty"
    by blast
  ultimately show ?thesis
    using f n noRouteState_simps(1,2) by blast
qed

theorem dispatch_only_pool_grows_witness:
  "cliSessPool (client (snd (Pull echoState ''/echo'' INil INil [])))
     = [''127.0.0.1:9090'' \<mapsto> New 0 (peer freshClient) ''127.0.0.1:9090'' 100 180000000000]
   \<and> linker (client (snd (Pull echoState ''/echo'' INil INil []))) = linker (client echoState)
   \<and> sessMaxQuota (client (snd (Pull echoState ''/echo'' INil INil []))) = 100
   \<and> onlyPoolGrows echoState ''/echo'' (snd (Pull echoState ''/echo'' INil INil []))
   \<and> onlyPoolGrows noRouteState ''/x'' (snd (Push noRouteState ''/x'' INil []))
   \<and> cliSessPool (client (snd (Push noRouteState ''/x'' INil []))) = Map.empty"
proof -
  note e = dispatch_only_pool_grows [of echoState "''/echo''" INil INil "[]" None]
  note n = dispatch_only_pool_grows [of noRouteState "''/x''" INil INil "[]" None]
  have sel: "Select (NewStaticLinker ''127.0.0.1:9090'') (stripQuery ''/echo'')
      = (''127.0.0.1:9090'', None)"
    by (simp add: NewStaticLinker_def staticLinker_Select_def)
  have pool: "cliSessPool (client (snd (Pull echoState ''/echo'' INil INil [])))
     = [''127.0.0.1:9090'' \<mapsto> New 0 (peer freshClient) ''127.0.0.1:9090'' 100 180000000000]"
    by (simp add: Pull_client getCliSession_miss [OF echoState_simps(1) sel]
        echoState_simps Let_def)
  from e have "linker (client (snd (Pull echoState ''/echo'' INil INil []))) = linker (client echoState)"
    "sessMaxQuota (client (snd (Pull echoState ''/echo'' INil INil []))) = 100"
    by (simp_all add: onlyPoolGrows_def Let_def echoState_simps)
  moreover from n have "cliSessPool (client (snd (Push noRouteState ''/x'' INil []))) = Map.empty"
    by (simp add: onlyPoolGrows_def Let_def noRouteState_simps noRouteLinker_Select)
  ultimately show ?thesis
    using e n pool by blast
qed

text \<open>
  C1. Two goroutines call \<open>getCliSession\<close> for \<open>/echo\<close> on a client with a static
  linker and an empty pool, taking turns call by call. Both find the pool empty at
  \<open>Load\<close>, both construct a session, and both \<open>Store\<close>: two sessions exist, the first
  caller returns one that the pool no longer holds.
\<close>
theorem getCliSession_race_two_sessions:
  "(case runSchedule echoState [AtSelect ''/echo'', AtSelect ''/echo''] [0, 1, 0, 1, 0, 1, 0, 1] of
      (s', ts) \<Rightarrow>
        ts = [Finished (Returns (Some (New 0 (peer freshClient) ''127.0.0.1:9090'' 100 180000000000), None)),
              Finished (Returns (Some (New 1 (peer freshClient) ''127.0.0.1:9090'' 100 180000000000), None))]
        \<and> nsess s' = 2
        \<and> cliSessPool (client s') =
            [''127.0.0.1:9090'' \<mapsto> New 1 (peer freshClient) ''127.0.0.1:9090'' 100 180000000000]
        \<and> calls s' =
            [CallSelect ''/echo'', CallSelect ''/echo'',
             CallLoad ''127.0.0.1:9090'', CallLoad ''127.0.0.1:9090'',
             CallNew (peer freshClient) ''127.0.0.1:9090'' 100 180000000000,
             CallNew (peer freshClient) ''127.0.0.1:9090'' 100 180000000000,
             CallStore ''127.0.0.1:9090'' (New 0 (peer freshClient) ''127.0.0.1:9090'' 100 180000000000),
             CallStore ''127.0.0.1:9090'' (New 1 (peer freshClient) ''127.0.0.1:9090'' 100 180000000000)])"
  by (simp add: runSchedule_def schedStep_def echoState_def initState_def SetLinker_def
      freshClient_def NewStaticLinker_def staticLinker_Select_def stripQuery_examples
      callSelect_def poolLoad_def callNew_def poolStore_def logCall_def)


text \<open>Run one after the other, two calls that select the same address share one session:
  the second call allocates nothing and leaves the client as the first left it.\<close>

lemma getCliSession_sequential_reuse:
  assumes "linker (client s) = Some l"
    and "Select l (stripQuery uri1) = (addr, None)"
    and "Select l (stripQuery uri2) = (addr, None)"
  shows "(case getCliSession s uri1 of
            (r1, s1) \<Rightarrow>
              (case getCliSession s1 uri2 of
                 (r2, s2) \<Rightarrow> r2 = r1 \<and> nsess s2 = nsess s1 \<and> client s2 = client s1))"
proof (cases "cliSessPool (client s) addr")
  case None
  let ?c = "client s"
  let ?cs = "New (nsess s) (peer ?c) addr (sessMaxQuota ?c) (sessMaxIdleDuration ?c)"
  let ?s1 = "s\<lparr>client := ?c\<lparr>cliSessPool := (cliSessPool ?c)(addr \<mapsto> ?cs)\<rparr>,
                nsess := Suc (nsess s),
                calls := calls s @ [CallSelect (stripQuery uri1), CallLoad addr,
                           CallNew (peer ?c) addr (sessMaxQuota ?c) (sessMaxIdleDuration ?c),
                           CallStore addr ?cs]\<rparr>"
  have first: "getCliSession s uri1 = (Returns (Some ?cs, None), ?s1)"
    using getCliSession_miss [OF assms(1,2) None] by (simp add: Let_def)
  have l1: "linker (client ?s1) = Some l" and p1: "cliSessPool (client ?s1) addr = Some ?cs"
    using assms(1) by simp_all
  show ?thesis
    by (simp add: first getCliSession_hit [OF l1 assms(3) p1])
next
  case (Some cs)
  let ?s1 = "s\<lparr>calls := calls s @ [CallSelect (stripQuery uri1), CallLoad addr]\<rparr>"
  have first: "getCliSession s uri1 = (Returns (Some cs, None), ?s1)"
    by (rule getCliSession_hit [OF assms(1,2) Some])
  have l1: "linker (client ?s1) = Some l" and p1: "cliSessPool (client ?s1) addr = Some cs"
    using assms(1) Some by simp_all
  show ?thesis
    by (simp add: first getCliSession_hit [OF l1 assms(3) p1])
qed

end
